theory Spec2Isabelle
  imports Complex_Main "HOL-Library.Word"
begin

section \<open>JavaScript values used by the route handlers\<close>

text \<open>
  A JavaScript string is a sequence of UTF-16 code units; \<open>slice\<close> and \<open>length\<close> count
  code units.  Literals of the source that are plain ASCII are written with \<open>ascii\<close>,
  other literals as explicit code units.
\<close>

type_synonym code_unit = "16 word"
type_synonym jsstring = "code_unit list"
type_synonym bytes = "8 word list"

definition ascii :: "string \<Rightarrow> jsstring" where
  "ascii s = map of_char s"

text \<open>
  \<open>Array.prototype.slice(start, end)\<close> and \<open>String.prototype.slice(start, end)\<close>: a negative
  index counts from the end, both indices are clamped to the length, and an empty range
  gives the empty sequence.
\<close>

definition slice_js :: "'a list \<Rightarrow> int \<Rightarrow> int \<Rightarrow> 'a list" where
  "slice_js xs start fin =
     (let len = int (length xs);
          k = (if start < 0 then max (len + start) 0 else min start len);
          final = (if fin < 0 then max (len + fin) 0 else min fin len)
      in take (nat (final - k)) (drop (nat k) xs))"

text \<open>\<open>Array.prototype.join(sep)\<close> on an array of strings.\<close>

fun join :: "jsstring \<Rightarrow> jsstring list \<Rightarrow> jsstring" where
  "join sep [] = []"
| "join sep [x] = x"
| "join sep (x # y # ys) = x @ sep @ join sep (y # ys)"

text \<open>\<open>Number.prototype.toString()\<close> on an array length: the decimal digits.\<close>

definition digit :: "nat \<Rightarrow> code_unit" where
  "digit d = of_nat (48 + d)"

fun toString :: "nat \<Rightarrow> jsstring" where
  "toString n = (if n < 10 then [digit n] else toString (n div 10) @ [digit (n mod 10)])"

declare toString.simps [simp del]

datatype json =
    JNull
  | JBool bool
  | JNumber real
  | JString jsstring
  | JArray "json list"
  | JObject "(jsstring \<times> json) list"

text \<open>
  A thrown value, as the \<open>catch (e: any)\<close> clauses read it: \<open>e.message\<close> and the optional
  \<open>e.status\<close>, a number.
\<close>

record failure =
  message :: jsstring
  status :: "nat option"

text \<open>
  A stream that has run to its end: the chunks put into it, in order, and whether it was
  closed (\<open>None\<close>) or errored with a failure.
\<close>

record 'a ReadableStream =
  chunks :: "'a list"
  ending :: "failure option"

text \<open>
  Built-ins of the JavaScript runtime that the handlers call.  \<open>Buffer_base64 s\<close> is
  \<open>Buffer.from(s).toString("base64")\<close>; \<open>TypeError_reading p\<close> is the message of the
  \<open>TypeError\<close> raised when property \<open>p\<close> of \<open>undefined\<close> is read; \<open>Response_refuses st\<close>
  is the message of the error that constructing a response with a body and the status
  \<open>st\<close> raises when the status is refused.
\<close>

record runtime =
  JSON_stringify :: "json \<Rightarrow> jsstring"
  Buffer_base64 :: "jsstring \<Rightarrow> jsstring"
  TextEncoder_encode :: "jsstring \<Rightarrow> bytes"
  TypeError_reading :: "jsstring \<Rightarrow> jsstring"
  Response_refuses :: "nat \<Rightarrow> jsstring"

definition TypeError :: "runtime \<Rightarrow> jsstring \<Rightarrow> failure" where
  "TypeError rt p = \<lparr>message = TypeError_reading rt p, status = None\<rparr>"

section \<open>Requests, responses and external services\<close>

record VercelChatMessage =
  role :: jsstring
  content :: jsstring

text \<open>
  The parsed request body \<open>{ messages?, show_intermediate_steps? }\<close>; an absent field is
  \<open>None\<close>.  A request is the outcome of \<open>await req.json()\<close>.
\<close>

record body =
  messages :: "VercelChatMessage list option"
  show_intermediate_steps :: "bool option"

type_synonym NextRequest = "failure + body"

record Document =
  pageContent :: jsstring
  metadata :: json

datatype response =
    NextResponse_json json nat
  | StreamingTextResponse "bytes ReadableStream" "(jsstring \<times> jsstring) list"
  | Response "jsstring ReadableStream" "(jsstring \<times> jsstring) list"

text \<open>
  What an asynchronous computation comes to: a value, a thrown failure, or a promise that
  is never settled.
\<close>

datatype 'a outcome = Returned 'a | Thrown failure | Never

text \<open>
  \<open>NextResponse.json(data, { status })\<close> constructs a response with a body.  The
  constructor accepts a status from 200 to 599 that is not a null-body status; for any
  other status it throws (a \<open>RangeError\<close> out of range, a \<open>TypeError\<close> for a null-body
  status), and the thrown error has no status of its own.
\<close>

definition null_body_status :: "nat \<Rightarrow> bool" where
  "null_body_status st = (st = 101 \<or> st = 103 \<or> st = 204 \<or> st = 205 \<or> st = 304)"

definition accepted_status :: "nat \<Rightarrow> bool" where
  "accepted_status st = (200 \<le> st \<and> st \<le> 599 \<and> \<not> null_body_status st)"

definition Response_error :: "runtime \<Rightarrow> nat \<Rightarrow> failure" where
  "Response_error rt st = \<lparr>message = Response_refuses rt st, status = None\<rparr>"

definition NextResponse_dot_json :: "runtime \<Rightarrow> json \<Rightarrow> nat \<Rightarrow> response outcome" where
  "NextResponse_dot_json rt data st =
     (if accepted_status st then Returned (NextResponse_json data st)
      else Thrown (Response_error rt st))"

text \<open>
  The \<open>catch\<close> clause shared by all four handlers; what it throws itself leaves the
  handler.
\<close>

definition catch_clause :: "runtime \<Rightarrow> failure \<Rightarrow> response outcome" where
  "catch_clause rt e =
     NextResponse_dot_json rt (JObject [(ascii ''error'', JString (message e))])
       (case status e of Some s \<Rightarrow> s | None \<Rightarrow> 500)"

definition try_catch :: "runtime \<Rightarrow> response outcome \<Rightarrow> response outcome" where
  "try_catch rt r = (case r of Thrown e \<Rightarrow> catch_clause rt e | _ \<Rightarrow> r)"

section \<open>LangChain messages, agent events and the external services\<close>

text \<open>
  LangChain message classes with their content; an \<open>AIMessage\<close> also carries its tool
  calls, a \<open>ChatMessage\<close> its free-form role.
\<close>

datatype BaseMessage =
    HumanMessage jsstring
  | AIMessage jsstring "json list"
  | ChatMessage jsstring jsstring
  | SystemMessage jsstring
  | ToolMessage jsstring

fun getType :: "BaseMessage \<Rightarrow> jsstring" where
  "getType (HumanMessage c) = ascii ''human''"
| "getType (AIMessage c tcs) = ascii ''ai''"
| "getType (ChatMessage c r) = ascii ''generic''"
| "getType (SystemMessage c) = ascii ''system''"
| "getType (ToolMessage c) = ascii ''tool''"

fun message_content :: "BaseMessage \<Rightarrow> jsstring" where
  "message_content (HumanMessage c) = c"
| "message_content (AIMessage c tcs) = c"
| "message_content (ChatMessage c r) = c"
| "message_content (SystemMessage c) = c"
| "message_content (ToolMessage c) = c"

text \<open>
  A chunk streamed by the chat model (\<open>data.chunk\<close>): its text \<open>content\<close>, which is the
  empty string on a delta that only carries a tool call, and its tool-call fragments.
  An agent event is \<open>{ event, data }\<close>; \<open>data.chunk\<close> is optional in the event type.
\<close>

datatype AIMessageChunk =
  AIMessageChunk (chunk_content: jsstring) (tool_call_chunks: "json list")

record StreamEvent =
  event :: jsstring
  data_chunk :: "AIMessageChunk option"

text \<open>
  The remote collaborators of the handlers, as functions of their input: the chat model
  (invoked for a whole answer, or streamed), the vector-store retriever, the prebuilt
  agent (event stream, or run to completion) and the structured-output model.  Each call
  can fail.
\<close>

record services =
  model_invoke :: "jsstring \<Rightarrow> failure + jsstring"
  model_stream :: "jsstring \<Rightarrow> failure + jsstring ReadableStream"
  retriever_getRelevantDocuments :: "jsstring \<Rightarrow> failure + Document list"
  agent_streamEvents :: "BaseMessage list \<Rightarrow> failure + StreamEvent ReadableStream"
  agent_invoke :: "BaseMessage list \<Rightarrow> failure + BaseMessage list"
  structured_invoke :: "jsstring \<Rightarrow> failure + json"

text \<open>
  The calls a handler makes to the services are recorded in order, with their arguments;
  \<open>RetrieverEnd\<close> is the \<open>handleRetrieverEnd\<close> callback.
\<close>

datatype call =
    ModelInvoke jsstring
  | ModelStream jsstring
  | RetrieverStart jsstring
  | RetrieverEnd "Document list"
  | AgentStreamEvents "BaseMessage list"
  | AgentInvoke "BaseMessage list"
  | StructuredInvoke jsstring

type_synonym 'a run = "call list \<times> 'a outcome"

definition ret :: "'a \<Rightarrow> 'a run" where
  "ret x = ([], Returned x)"

definition bind_run :: "'a run \<Rightarrow> ('a \<Rightarrow> 'b run) \<Rightarrow> 'b run" where
  "bind_run m f =
     (case m of
        (l, Returned x) \<Rightarrow> (case f x of (l', r) \<Rightarrow> (l @ l', r))
      | (l, Thrown e) \<Rightarrow> (l, Thrown e)
      | (l, Never) \<Rightarrow> (l, Never))"

definition external :: "call \<Rightarrow> failure + 'a \<Rightarrow> 'a run" where
  "external c r = ([c], case r of Inl e \<Rightarrow> Thrown e | Inr x \<Rightarrow> Returned x)"

text \<open>\<open>a.pipe(b)\<close> and \<open>RunnableSequence.from([a, b])\<close>; a plain function as a step.\<close>

definition pipe :: "('a \<Rightarrow> 'b run) \<Rightarrow> ('b \<Rightarrow> 'c run) \<Rightarrow> 'a \<Rightarrow> 'c run" where
  "pipe f g x = bind_run (f x) g"

definition lambda :: "('a \<Rightarrow> 'b) \<Rightarrow> 'a \<Rightarrow> 'b run" where
  "lambda f x = ret (f x)"

definition model :: "services \<Rightarrow> jsstring \<Rightarrow> jsstring run" where
  "model svc prompt = external (ModelInvoke prompt) (model_invoke svc prompt)"

definition model_streaming :: "services \<Rightarrow> jsstring \<Rightarrow> jsstring ReadableStream run" where
  "model_streaming svc prompt = external (ModelStream prompt) (model_stream svc prompt)"

definition StringOutputParser :: "jsstring \<Rightarrow> jsstring" where
  "StringOutputParser text = text"

definition BytesOutputParser :: "runtime \<Rightarrow> jsstring ReadableStream \<Rightarrow> bytes ReadableStream" where
  "BytesOutputParser rt s =
     \<lparr>chunks = map (TextEncoder_encode rt) (chunks s), ending = ending s\<rparr>"

section \<open>The retrieval route\<close>

definition combineDocumentsFn :: "Document list \<Rightarrow> jsstring" where
  "combineDocumentsFn docs =
     (let serializedDocs = map pageContent docs
      in join (ascii ''\<newline>\<newline>'') serializedDocs)"

definition formatVercelMessages :: "VercelChatMessage list \<Rightarrow> jsstring" where
  "formatVercelMessages chatHistory =
     (let formattedDialogueTurns =
        map (\<lambda>message.
               if role message = ascii ''user'' then ascii ''Human: '' @ content message
               else if role message = ascii ''assistant'' then
                 ascii ''Assistant: '' @ content message
               else role message @ ascii '': '' @ content message) chatHistory
      in join (ascii ''\<newline>'') formattedDialogueTurns)"

record chain_input =
  question :: jsstring
  chat_history :: jsstring

record answer_input = chain_input +
  doc_context :: jsstring

text \<open>\<open>CONDENSE_QUESTION_TEMPLATE\<close> with its two placeholders filled in.\<close>

definition condenseQuestionPrompt :: "chain_input \<Rightarrow> jsstring" where
  "condenseQuestionPrompt input =
     ascii ''Given the following conversation and a follow up question, rephrase the follow up question to be a standalone question, in its original language.\<newline>\<newline><chat_history>\<newline>  ''
     @ chat_history input
     @ ascii ''\<newline></chat_history>\<newline>\<newline>Follow Up Input: ''
     @ question input
     @ ascii ''\<newline>Standalone question:''"

text \<open>
  \<open>ANSWER_TEMPLATE\<close> with its three placeholders filled in; the Chinese instructions of
  the template are given as their UTF-16 code units.
\<close>

definition answerPrompt :: "answer_input \<Rightarrow> jsstring" where
  "answerPrompt input =
     [0x4F60, 0x662F, 0x4E00, 0x53EA, 0x540D, 0x53EB]
     @ ascii ''Dana''
     @ [0x7684, 0x7CBE, 0x529B, 0x5145, 0x6C9B, 0x7684, 0x4F1A, 0x8BF4, 0x8BDD, 0x7684,
        0x5C0F, 0x72D7, 0xFF0C, 0x4F60, 0x9ED8, 0x8BA4, 0x8BF4, 0x4E2D, 0x6587, 0xFF0C,
        0x5FC5, 0x987B, 0x50CF, 0x4E00, 0x53EA, 0x5FEB, 0x4E50, 0x4F1A, 0x8BF4, 0x8BDD,
        0x7684, 0x72D7, 0x4E00, 0x6837, 0x56DE, 0x7B54, 0x6240, 0x6709, 0x95EE, 0x9898,
        0x3002]
     @ ascii ''\<newline>''
     @ [0x4F7F, 0x7528, 0x5927, 0x91CF, 0x53CC, 0x5173, 0x8BED, 0xFF01]
     @ ascii ''\<newline>\<newline>''
     @ [0x4EC5, 0x6839, 0x636E, 0x4EE5, 0x4E0B, 0x4E0A, 0x4E0B, 0x6587, 0x548C, 0x804A,
        0x5929, 0x8BB0, 0x5F55, 0x56DE, 0x7B54, 0x95EE, 0x9898, 0xFF1A]
     @ ascii ''\<newline>\<newline><context>\<newline>  ''
     @ doc_context input
     @ ascii ''\<newline></context>\<newline>\<newline><chat_history>\<newline>  ''
     @ chat_history input
     @ ascii ''\<newline></chat_history>\<newline>\<newline>Question: ''
     @ question input
     @ ascii ''\<newline>''"

text \<open>Step 1: prompt, model, string parser.\<close>

definition standaloneQuestionChain :: "services \<Rightarrow> chain_input \<Rightarrow> jsstring run" where
  "standaloneQuestionChain svc =
     pipe (pipe (lambda condenseQuestionPrompt) (model svc)) (lambda StringOutputParser)"

text \<open>
  The retriever made by \<open>vectorstore.asRetriever\<close>, with the callback that hands the
  retrieved documents over when retrieval has ended.
\<close>

definition retriever :: "services \<Rightarrow> jsstring \<Rightarrow> Document list run" where
  "retriever svc query =
     bind_run (external (RetrieverStart query) (retriever_getRelevantDocuments svc query))
       (\<lambda>documents. ([RetrieverEnd documents], Returned documents))"

text \<open>Step 2: the retrieval chain.\<close>

definition retrievalChain :: "services \<Rightarrow> jsstring \<Rightarrow> jsstring run" where
  "retrievalChain svc = pipe (retriever svc) (lambda combineDocumentsFn)"

text \<open>Step 3: the answer chain; its first step builds the three prompt variables.\<close>

definition answerChain_inputs :: "services \<Rightarrow> chain_input \<Rightarrow> answer_input run" where
  "answerChain_inputs svc input =
     bind_run (pipe (lambda question) (retrievalChain svc) input)
       (\<lambda>ctx. ret \<lparr>question = question input, chat_history = chat_history input,
                     doc_context = ctx\<rparr>)"

definition answerChain :: "services \<Rightarrow> chain_input \<Rightarrow> jsstring ReadableStream run" where
  "answerChain svc =
     pipe (pipe (answerChain_inputs svc) (lambda answerPrompt)) (model_streaming svc)"

text \<open>The whole chain: standalone question, answer chain, bytes parser.\<close>

definition conversationalRetrievalQAChain_inputs ::
  "services \<Rightarrow> chain_input \<Rightarrow> chain_input run" where
  "conversationalRetrievalQAChain_inputs svc input =
     bind_run (standaloneQuestionChain svc input)
       (\<lambda>q. ret \<lparr>question = q, chat_history = chat_history input\<rparr>)"

definition conversationalRetrievalQAChain ::
  "runtime \<Rightarrow> services \<Rightarrow> chain_input \<Rightarrow> bytes ReadableStream run" where
  "conversationalRetrievalQAChain rt svc =
     pipe (pipe (conversationalRetrievalQAChain_inputs svc) (answerChain svc))
       (lambda (BytesOutputParser rt))"

text \<open>
  \<open>documentPromise\<close> is resolved by the first \<open>handleRetrieverEnd\<close> callback and stays
  pending when there is none.
\<close>

fun documentPromise :: "call list \<Rightarrow> Document list outcome" where
  "documentPromise [] = Never"
| "documentPromise (RetrieverEnd documents # cs) = Returned documents"
| "documentPromise (c # cs) = documentPromise cs"

definition serializedSources :: "runtime \<Rightarrow> Document list \<Rightarrow> jsstring" where
  "serializedSources rt documents =
     Buffer_base64 rt
       (JSON_stringify rt
          (JArray (map (\<lambda>doc.
             JObject [(ascii ''pageContent'',
                       JString (slice_js (pageContent doc) 0 50 @ ascii ''...'')),
                      (ascii ''metadata'', metadata doc)]) documents)))"

text \<open>
  The handler.  Reading \<open>.content\<close> of \<open>messages[messages.length - 1]\<close> throws a
  \<open>TypeError\<close> when the list is empty.  The chain runs up to the start of the answer
  stream inside \<open>await chain.stream\<close>; a failure there is thrown to the \<open>catch\<close> clause,
  a failure later ends the stream that was already returned.  Constructing the model,
  database and embedding clients from the environment is not modelled.
\<close>

definition POST_retrieval_body :: "runtime \<Rightarrow> services \<Rightarrow> NextRequest \<Rightarrow> response run" where
  "POST_retrieval_body rt svc req =
     (case req of
        Inl e \<Rightarrow> ([], Thrown e)
      | Inr body \<Rightarrow>
          let messages = (case messages body of Some ms \<Rightarrow> ms | None \<Rightarrow> []);
              previousMessages = slice_js messages 0 (- 1)
          in if messages = [] then ([], Thrown (TypeError rt (ascii ''content'')))
             else
               let currentMessageContent = content (last messages)
               in (case conversationalRetrievalQAChain rt svc
                          \<lparr>question = currentMessageContent,
                           chat_history = formatVercelMessages previousMessages\<rparr> of
                     (l, Returned stream) \<Rightarrow>
                       (case documentPromise l of
                          Returned documents \<Rightarrow>
                            (l, Returned (StreamingTextResponse stream
                               [(ascii ''x-message-index'',
                                 toString (length previousMessages + 1)),
                                (ascii ''x-sources'', serializedSources rt documents)]))
                        | Thrown e \<Rightarrow> (l, Thrown e)
                        | Never \<Rightarrow> (l, Never))
                   | (l, Thrown e) \<Rightarrow> (l, Thrown e)
                   | (l, Never) \<Rightarrow> (l, Never)))"

definition POST_retrieval :: "runtime \<Rightarrow> services \<Rightarrow> NextRequest \<Rightarrow> response run" where
  "POST_retrieval rt svc req =
     (case POST_retrieval_body rt svc req of (l, r) \<Rightarrow> (l, try_catch rt r))"

text \<open>Headers set by the handler on a response, and on the outcome of a handler.\<close>

fun header :: "response \<Rightarrow> jsstring \<Rightarrow> jsstring option" where
  "header (NextResponse_json j st) name = None"
| "header (StreamingTextResponse s hs) name = map_of hs name"
| "header (Response s hs) name = map_of hs name"

definition header_of :: "response outcome \<Rightarrow> jsstring \<Rightarrow> jsstring option" where
  "header_of r name = (case r of Returned resp \<Rightarrow> header resp name | _ \<Rightarrow> None)"

text \<open>The queries the retriever was started with, read off the recorded calls.\<close>

fun retriever_queries :: "call list \<Rightarrow> jsstring list" where
  "retriever_queries [] = []"
| "retriever_queries (RetrieverStart q # cs) = q # retriever_queries cs"
| "retriever_queries (c # cs) = retriever_queries cs"

section \<open>The agent route\<close>

definition convertVercelMessageToLangChainMessage :: "VercelChatMessage \<Rightarrow> BaseMessage" where
  "convertVercelMessageToLangChainMessage =
     (\<lambda>message.
        if role message = ascii ''user'' then HumanMessage (content message)
        else if role message = ascii ''assistant'' then AIMessage (content message) []
        else ChatMessage (content message) (role message))"

fun tool_calls :: "BaseMessage \<Rightarrow> json list" where
  "tool_calls (AIMessage c tcs) = tcs"
| "tool_calls m = []"

definition convertLangChainMessageToVercelMessage :: "BaseMessage \<Rightarrow> json" where
  "convertLangChainMessageToVercelMessage =
     (\<lambda>message.
        if getType message = ascii ''human'' then
          JObject [(ascii ''content'', JString (message_content message)),
                   (ascii ''role'', JString (ascii ''user''))]
        else if getType message = ascii ''ai'' then
          JObject [(ascii ''content'', JString (message_content message)),
                   (ascii ''role'', JString (ascii ''assistant'')),
                   (ascii ''tool_calls'', JArray (tool_calls message))]
        else
          JObject [(ascii ''content'', JString (message_content message)),
                   (ascii ''role'', JString (getType message))])"

text \<open>
  The \<open>start\<close> callback of \<open>transformStream\<close>: the \<open>for await\<close> loop over the agent's
  events.  A chunk is enqueued for a chat-model stream event whose content is truthy
  (a non-empty string).  Reading \<open>data.chunk.content\<close> with no \<open>data.chunk\<close> throws inside
  the callback, and so does an event stream that fails: either way the stream that was
  already handed to the response is errored, after the chunks enqueued before.  When the
  events are exhausted the stream is closed.
\<close>

definition enqueue :: "'a \<Rightarrow> 'a ReadableStream \<Rightarrow> 'a ReadableStream" where
  "enqueue c s = s\<lparr>chunks := c # chunks s\<rparr>"

fun transformStream_start ::
  "runtime \<Rightarrow> StreamEvent list \<Rightarrow> failure option \<Rightarrow> bytes ReadableStream" where
  "transformStream_start rt [] fin = \<lparr>chunks = [], ending = fin\<rparr>"
| "transformStream_start rt (e # es) fin =
     (if event e = ascii ''on_chat_model_stream'' then
        (case data_chunk e of
           None \<Rightarrow> \<lparr>chunks = [], ending = Some (TypeError rt (ascii ''content''))\<rparr>
         | Some chunk \<Rightarrow>
             if chunk_content chunk \<noteq> [] then
               enqueue (TextEncoder_encode rt (chunk_content chunk))
                 (transformStream_start rt es fin)
             else transformStream_start rt es fin)
      else transformStream_start rt es fin)"

definition transformStream :: "runtime \<Rightarrow> StreamEvent ReadableStream \<Rightarrow> bytes ReadableStream" where
  "transformStream rt eventStream =
     transformStream_start rt (chunks eventStream) (ending eventStream)"

text \<open>The message list handed to the agent, in either mode.\<close>

definition agent_messages :: "body \<Rightarrow> BaseMessage list" where
  "agent_messages body =
     map convertVercelMessageToLangChainMessage
       (filter (\<lambda>message. role message = ascii ''user'' \<or> role message = ascii ''assistant'')
          (case messages body of Some ms \<Rightarrow> ms | None \<Rightarrow> []))"

definition POST_agents_body :: "runtime \<Rightarrow> services \<Rightarrow> NextRequest \<Rightarrow> response run" where
  "POST_agents_body rt svc req =
     (case req of
        Inl e \<Rightarrow> ([], Thrown e)
      | Inr body \<Rightarrow>
          let returnIntermediateSteps = show_intermediate_steps body;
              messages = agent_messages body
          in if returnIntermediateSteps \<noteq> Some True then
               bind_run (external (AgentStreamEvents messages) (agent_streamEvents svc messages))
                 (\<lambda>eventStream.
                    ret (StreamingTextResponse (transformStream rt eventStream) []))
             else
               bind_run (external (AgentInvoke messages) (agent_invoke svc messages))
                 (\<lambda>result.
                    ([], NextResponse_dot_json rt
                      (JObject [(ascii ''messages'',
                         JArray (map convertLangChainMessageToVercelMessage result))]) 200)))"

definition POST_agents :: "runtime \<Rightarrow> services \<Rightarrow> NextRequest \<Rightarrow> response run" where
  "POST_agents rt svc req =
     (case POST_agents_body rt svc req of (l, r) \<Rightarrow> (l, try_catch rt r))"

section \<open>The chat route and the structured-output route\<close>

definition formatMessage :: "VercelChatMessage \<Rightarrow> jsstring" where
  "formatMessage = (\<lambda>message. role message @ ascii '': '' @ content message)"

text \<open>The chat \<open>TEMPLATE\<close> with \<open>{chat_history}\<close> and \<open>{input}\<close> filled in.\<close>

definition chat_prompt :: "jsstring \<Rightarrow> jsstring \<Rightarrow> jsstring" where
  "chat_prompt history input =
     [0x4F60, 0x662F, 0x4EBA, 0x7C7B, 0x6700, 0x5389, 0x5BB3, 0x7684, 0x7A0B, 0x5E8F,
      0x5458, 0xFF0C, 0x813E, 0x6C14, 0x5F88, 0x66B4, 0x8E81, 0xFF0C, 0x7CBE, 0x901A,
      0x6240, 0x6709, 0x5F00, 0x53D1, 0x8BED, 0x8A00, 0xFF0C, 0x6709]
     @ ascii ''30''
     @ [0x5E74, 0x7684, 0x5F00, 0x53D1, 0x7ECF, 0x9A8C, 0xFF0C, 0x4F60, 0x8BB2, 0x7684,
        0x4E2D, 0x6587, 0xFF0C, 0x9999, 0x6E2F, 0x8154, 0x8C03]
     @ ascii ''.\<newline>\<newline>Current conversation:\<newline>''
     @ history
     @ ascii ''\<newline>\<newline>User: ''
     @ input
     @ ascii ''\<newline>AI:''"

text \<open>
  \<open>prompt.pipe(model).pipe(outputParser)\<close>, streamed: the parser passes on the text of
  each chunk.
\<close>

definition StringOutputParser_stream :: "jsstring ReadableStream \<Rightarrow> jsstring ReadableStream" where
  "StringOutputParser_stream s =
     \<lparr>chunks = map StringOutputParser (chunks s), ending = ending s\<rparr>"

definition chat_chain :: "services \<Rightarrow> jsstring \<times> jsstring \<Rightarrow> jsstring ReadableStream run" where
  "chat_chain svc =
     pipe (pipe (lambda (\<lambda>(history, input). chat_prompt history input)) (model_streaming svc))
       (lambda StringOutputParser_stream)"

definition POST_chat_body :: "runtime \<Rightarrow> services \<Rightarrow> NextRequest \<Rightarrow> response run" where
  "POST_chat_body rt svc req =
     (case req of
        Inl e \<Rightarrow> ([], Thrown e)
      | Inr body \<Rightarrow>
          let messages = (case messages body of Some ms \<Rightarrow> ms | None \<Rightarrow> []);
              formattedPreviousMessages = map formatMessage (slice_js messages 0 (- 1))
          in if messages = [] then ([], Thrown (TypeError rt (ascii ''content'')))
             else
               let currentMessageContent = content (last messages)
               in bind_run
                    (chat_chain svc
                       (join (ascii ''\<newline>'') formattedPreviousMessages,
                        currentMessageContent))
                    (\<lambda>stream.
                       ret (Response stream
                         [(ascii ''Content-Type'', ascii ''text/plain; charset=utf-8'')])))"

definition POST_chat :: "runtime \<Rightarrow> services \<Rightarrow> NextRequest \<Rightarrow> response run" where
  "POST_chat rt svc req =
     (case POST_chat_body rt svc req of (l, r) \<Rightarrow> (l, try_catch rt r))"

text \<open>The structured-output \<open>TEMPLATE\<close> with \<open>{input}\<close> filled in.\<close>

definition structured_output_prompt :: "jsstring \<Rightarrow> jsstring" where
  \<open>structured_output_prompt input =
     ascii ''Extract the requested fields from the input.\<newline>\<newline>The field "entity" refers to the first mentioned entity in the input.\<newline>\<newline>Input:\<newline>\<newline>''
     @ input\<close>

text \<open>\<open>prompt.pipe(functionCallingModel)\<close>, invoked.\<close>

definition functionCallingModel :: "services \<Rightarrow> jsstring \<Rightarrow> json run" where
  "functionCallingModel svc prompt =
     external (StructuredInvoke prompt) (structured_invoke svc prompt)"

definition structured_output_chain :: "services \<Rightarrow> jsstring \<Rightarrow> json run" where
  "structured_output_chain svc =
     pipe (lambda structured_output_prompt) (functionCallingModel svc)"

definition POST_structured_output_body ::
  "runtime \<Rightarrow> services \<Rightarrow> NextRequest \<Rightarrow> response run" where
  "POST_structured_output_body rt svc req =
     (case req of
        Inl e \<Rightarrow> ([], Thrown e)
      | Inr body \<Rightarrow>
          let messages = (case messages body of Some ms \<Rightarrow> ms | None \<Rightarrow> [])
          in if messages = [] then ([], Thrown (TypeError rt (ascii ''content'')))
             else
               let currentMessageContent = content (last messages)
               in bind_run (structured_output_chain svc currentMessageContent)
                    (\<lambda>result. ([], NextResponse_dot_json rt result 200)))"

definition POST_structured_output ::
  "runtime \<Rightarrow> services \<Rightarrow> NextRequest \<Rightarrow> response run" where
  "POST_structured_output rt svc req =
     (case POST_structured_output_body rt svc req of (l, r) \<Rightarrow> (l, try_catch rt r))"

section \<open>The vector store: the documents table and match_documents\<close>

text \<open>
  A \<open>float8\<close> value: a number, taken as a real (rounding is not modelled), or NaN.
  PostgreSQL orders \<open>float8\<close> totally: NaN equals NaN and is greater than every number.
  This is the order of \<open>ORDER BY\<close> and of the comparison operators.
\<close>

datatype float8 = Finite real | NaN

instantiation float8 :: linorder
begin

fun less_eq_float8 :: "float8 \<Rightarrow> float8 \<Rightarrow> bool" where
  "less_eq_float8 (Finite x) (Finite y) = (x \<le> y)"
| "less_eq_float8 (Finite x) NaN = True"
| "less_eq_float8 NaN (Finite y) = False"
| "less_eq_float8 NaN NaN = True"

definition less_float8 :: "float8 \<Rightarrow> float8 \<Rightarrow> bool" where
  "less_float8 a b = (a \<le> b \<and> \<not> b \<le> a)"

instance
proof
  fix a b c :: float8
  show "(a < b) = (a \<le> b \<and> \<not> b \<le> a)" by (simp add: less_float8_def)
  show "a \<le> a" by (cases a) simp_all
  show "a \<le> b \<Longrightarrow> b \<le> c \<Longrightarrow> a \<le> c" by (cases a; cases b; cases c) simp_all
  show "a \<le> b \<Longrightarrow> b \<le> a \<Longrightarrow> a = b" by (cases a; cases b) simp_all
  show "a \<le> b \<or> b \<le> a" by (cases a; cases b) auto
qed

end

text \<open>Subtraction on \<open>float8\<close>: NaN on either side gives NaN.\<close>

fun float8_minus :: "float8 \<Rightarrow> float8 \<Rightarrow> float8" where
  "float8_minus (Finite x) (Finite y) = Finite (x - y)"
| "float8_minus a b = NaN"

text \<open>
  A row of the \<open>documents\<close> table with the columns \<open>id\<close>, \<open>content\<close>, \<open>metadata\<close> and
  \<open>embedding\<close> that \<open>match_documents\<close> reads (the timestamps are not read), as the
  vector-store adapter writes them: every row carries its text, metadata and embedding.
  A row of the result has the columns \<open>id\<close>, \<open>content\<close>, \<open>metadata\<close> and \<open>similarity\<close>.
  The components of a vector are taken as real numbers.
\<close>

type_synonym vector = "real list"

record 'i documents_row =
  doc_id :: 'i
  doc_content :: string
  doc_metadata :: json
  embedding :: vector

record 'i match_row =
  match_id :: 'i
  match_content :: string
  match_metadata :: json
  similarity :: float8

datatype sql_error = LIMIT_must_not_be_negative

text \<open>\<open>LIMIT n\<close>: the first \<open>n\<close> rows; a negative count is an error.\<close>

definition limit :: "int \<Rightarrow> 'a list \<Rightarrow> sql_error + 'a list" where
  "limit n rows = (if n < 0 then Inl LIMIT_must_not_be_negative else Inr (take (nat n) rows))"

text \<open>
  \<open>match_documents(query_embedding, match_count DEFAULT 10, filter DEFAULT NULL)\<close> of
  \<open>SUPABASE_SETUP.sql\<close>.  The distance operator \<open><=>\<close> of the vector extension and the
  containment operator \<open>@>\<close> of \<open>jsonb\<close> are parameters; an omitted argument is \<open>None\<close>.
  \<open>ORDER BY\<close> is ascending in the distance, a NaN distance last; rows at the same
  distance, whose order SQL leaves open, keep their table order here.
\<close>

definition match_documents ::
  "(vector \<Rightarrow> vector \<Rightarrow> float8) \<Rightarrow> (json \<Rightarrow> json \<Rightarrow> bool) \<Rightarrow>
   vector \<Rightarrow> int option \<Rightarrow> json option \<Rightarrow> 'i documents_row list \<Rightarrow>
   sql_error + 'i match_row list" where
  "match_documents distance contains query_embedding match_count filter_jsonb documents =
     (let selected =
            [d \<leftarrow> documents.
               (case filter_jsonb of Some f \<Rightarrow> contains (doc_metadata d) f | None \<Rightarrow> True)];
          ordered = sort_key (\<lambda>d. distance (embedding d) query_embedding) selected
      in map_sum id
           (map (\<lambda>d. \<lparr>match_id = doc_id d, match_content = doc_content d,
                       match_metadata = doc_metadata d,
                       similarity =
                         float8_minus (Finite 1) (distance (embedding d) query_embedding)\<rparr>))
           (limit (case match_count of Some n \<Rightarrow> n | None \<Rightarrow> 10) ordered))"

text \<open>
  \<open>match_documents(query_embedding, match_threshold DEFAULT 0.78, match_count DEFAULT 10)\<close>
  of \<open>SUPABASE_SETUP_grok.sql\<close>: rows whose similarity is greater than the threshold,
  which a NaN similarity is.
\<close>

definition match_documents_grok ::
  "(vector \<Rightarrow> vector \<Rightarrow> float8) \<Rightarrow>
   vector \<Rightarrow> float8 option \<Rightarrow> int option \<Rightarrow> 'i documents_row list \<Rightarrow>
   sql_error + 'i match_row list" where
  "match_documents_grok distance query_embedding match_threshold match_count documents =
     (let selected =
            [d \<leftarrow> documents.
               float8_minus (Finite 1) (distance (embedding d) query_embedding)
                 > (case match_threshold of Some t \<Rightarrow> t | None \<Rightarrow> Finite 0.78)];
          ordered = sort_key (\<lambda>d. distance (embedding d) query_embedding) selected
      in map_sum id
           (map (\<lambda>d. \<lparr>match_id = doc_id d, match_content = doc_content d,
                       match_metadata = doc_metadata d,
                       similarity =
                         float8_minus (Finite 1) (distance (embedding d) query_embedding)\<rparr>))
           (limit (case match_count of Some n \<Rightarrow> n | None \<Rightarrow> 10) ordered))"

text \<open>
  Modelled from the spec: the inner product of two vectors, for the cosine distance
  below, which is not part of the repository.
\<close>

definition inner_product :: "vector \<Rightarrow> vector \<Rightarrow> real" where
  "inner_product a b = sum_list (map2 (*) a b)"

text \<open>
  Modelled from the spec: the Euclidean length of a vector, for the cosine distance below.
\<close>

definition l2_norm :: "vector \<Rightarrow> real" where
  "l2_norm a = sqrt (inner_product a a)"

text \<open>
  Modelled from the spec: the cosine distance operator \<open><=>\<close> belongs to the vector
  extension and is not part of the repository.  The glossary describes it as the
  angle-based metric with similarity = 1 - distance, that is, one minus the cosine of the
  angle between the two vectors.  When one of the vectors has length zero the cosine is
  the quotient 0 / 0, which in \<open>float8\<close> arithmetic is NaN.  The operator is meant for
  vectors of the same dimension.
\<close>

definition cosine_distance :: "vector \<Rightarrow> vector \<Rightarrow> float8" where
  "cosine_distance a b =
     (if l2_norm a * l2_norm b = 0 then NaN
      else Finite (1 - inner_product a b / (l2_norm a * l2_norm b)))"

section \<open>Stand-ins for the runtime and the services in worked examples\<close>

text \<open>
  A stand-in for \<open>@>\<close> on flat metadata objects: every field of the filter is a field of
  the metadata.
\<close>

fun contains_fields :: "json \<Rightarrow> json \<Rightarrow> bool" where
  "contains_fields (JObject fs) (JObject gs) = list_all (\<lambda>g. g \<in> set fs) gs"
| "contains_fields a b = (a = b)"

definition stub_runtime :: runtime where
  "stub_runtime =
     \<lparr>JSON_stringify = (\<lambda>j. ascii ''json''),
      Buffer_base64 = (\<lambda>s. s),
      TextEncoder_encode = map ucast,
      TypeError_reading = (\<lambda>p. ascii ''Cannot read properties of undefined''),
      Response_refuses = (\<lambda>st. ascii ''status must be in the range of 200 to 599'')\<rparr>"

definition rate_limited :: failure where
  "rate_limited = \<lparr>message = ascii ''rate limit'', status = Some 429\<rparr>"

definition calculator_note :: Document where
  "calculator_note =
     \<lparr>pageContent = ascii ''Two plus two is four, as every pocket calculator will confirm.'',
      metadata = JObject [(ascii ''source'', JString (ascii ''sums.txt''))]\<rparr>"

text \<open>
  Services that answer: the model echoes a fixed question and streams one token, the
  retriever finds one document, the agent's event stream fails after its first token.
\<close>

definition stub_services :: services where
  "stub_services =
     \<lparr>model_invoke = (\<lambda>p. Inr (ascii ''What is 2+2?'')),
      model_stream = (\<lambda>p. Inr \<lparr>chunks = [ascii ''4''], ending = None\<rparr>),
      retriever_getRelevantDocuments =
        (\<lambda>q. Inr [calculator_note]),
      agent_streamEvents =
        (\<lambda>ms. Inr \<lparr>chunks = [\<lparr>event = ascii ''on_chat_model_stream'',
                                data_chunk = Some (AIMessageChunk (ascii ''4'') [])\<rparr>],
                     ending = Some rate_limited\<rparr>),
      agent_invoke = (\<lambda>ms. Inr (ms @ [AIMessage (ascii ''4'') []])),
      structured_invoke = (\<lambda>p. Inr JNull)\<rparr>"

text \<open>A request with a single user message.\<close>

definition user_question :: VercelChatMessage where
  "user_question = \<lparr>role = ascii ''user'', content = ascii ''What is 2+2?''\<rparr>"

definition one_question_body :: body where
  "one_question_body = \<lparr>messages = Some [user_question], show_intermediate_steps = None\<rparr>"

text \<open>
  A request that shows intermediate steps and sends one of them back as a system message.
\<close>

definition with_system_step :: body where
  "with_system_step =
     \<lparr>messages = Some [user_question,
        \<lparr>role = ascii ''system'', content = ascii ''tool: calculator''\<rparr>],
      show_intermediate_steps = Some True\<rparr>"

text \<open>Agent events: a text token, a delta that only carries a tool call, a tool start.\<close>

definition token_event :: StreamEvent where
  "token_event =
     \<lparr>event = ascii ''on_chat_model_stream'',
      data_chunk = Some (AIMessageChunk (ascii ''4'') [])\<rparr>"

definition tool_call_delta :: StreamEvent where
  "tool_call_delta =
     \<lparr>event = ascii ''on_chat_model_stream'',
      data_chunk = Some (AIMessageChunk [] [JString (ascii ''calculator'')])\<rparr>"

definition tool_start_event :: StreamEvent where
  "tool_start_event = \<lparr>event = ascii ''on_tool_start'', data_chunk = None\<rparr>"

text \<open>Three stored rows with unit embeddings in the plane.\<close>

definition row_east :: "nat documents_row" where
  "row_east = \<lparr>doc_id = 1, doc_content = ''The sky is blue.'',
                doc_metadata = JObject [(ascii ''source'', JString (ascii ''sky.txt''))],
                embedding = [1, 0]\<rparr>"



text \<open>A stored row whose embedding is the zero vector.\<close>

definition row_origin :: "nat documents_row" where
  "row_origin = \<lparr>doc_id = 4, doc_content = ''Nothing.'',
                  doc_metadata = JObject [(ascii ''source'', JString (ascii ''empty.txt''))],
                  embedding = [0, 0]\<rparr>"

text \<open>Failures: one whose status no response accepts, and services that are down.\<close>

definition network_error :: failure where
  "network_error = \<lparr>message = ascii ''network error'', status = Some 0\<rparr>"

definition services_down :: services where
  "services_down =
     \<lparr>model_invoke = (\<lambda>p. Inl rate_limited),
      model_stream = (\<lambda>p. Inl rate_limited),
      retriever_getRelevantDocuments = (\<lambda>q. Inl rate_limited),
      agent_streamEvents = (\<lambda>ms. Inl rate_limited),
      agent_invoke = (\<lambda>ms. Inl rate_limited),
      structured_invoke = (\<lambda>p. Inl rate_limited)\<rparr>"

definition retriever_down :: services where
  "retriever_down =
     stub_services\<lparr>retriever_getRelevantDocuments := (\<lambda>q. Inl rate_limited)\<rparr>"

definition model_stream_down :: services where
  "model_stream_down = stub_services\<lparr>model_stream := (\<lambda>p. Inl rate_limited)\<rparr>"

section \<open>The specification's words for the agent stream and the error response\<close>

text \<open>
  In the words of the specification: the free-text token delta of an event, which only a
  chat-model stream event with non-empty text content has.  An event is readable when
  the loop can read its chunk: a chat-model stream event carries one.
\<close>

definition text_delta :: "StreamEvent \<Rightarrow> jsstring option" where
  "text_delta e =
     (if event e = ascii ''on_chat_model_stream'' then
        (case data_chunk e of
           Some c \<Rightarrow> if chunk_content c \<noteq> [] then Some (chunk_content c) else None
         | None \<Rightarrow> None)
      else None)"

definition readable :: "StreamEvent \<Rightarrow> bool" where
  "readable e = (\<not> (event e = ascii ''on_chat_model_stream'' \<and> data_chunk e = None))"

text \<open>
  In the words of the specification: the error response for a failure, the JSON body
  \<open>{ error: message }\<close> with the status taken from the failure if present, else 500.
\<close>

definition error_response :: "failure \<Rightarrow> response" where
  "error_response e =
     NextResponse_json (JObject [(ascii ''error'', JString (message e))])
       (case status e of Some s \<Rightarrow> s | None \<Rightarrow> 500)"

section \<open>Properties of the retrieval route\<close>

lemma slice_js_0_minus1: "slice_js xs 0 (- 1) = butlast xs"
  by (cases "xs = []") (auto simp: slice_js_def Let_def butlast_conv_take nat_diff_distrib' max_def)

lemma slice_js_0_50: "slice_js s 0 50 = take 50 s"
  by (auto simp: slice_js_def Let_def min_def)

lemma conversationalRetrievalQAChain_run:
  "conversationalRetrievalQAChain rt svc input =
     (let p1 = condenseQuestionPrompt input in
      case model_invoke svc p1 of
        Inl e \<Rightarrow> ([ModelInvoke p1], Thrown e)
      | Inr q \<Rightarrow>
         (case retriever_getRelevantDocuments svc q of
            Inl e \<Rightarrow> ([ModelInvoke p1, RetrieverStart q], Thrown e)
          | Inr docs \<Rightarrow>
             (let p2 = answerPrompt \<lparr>question = q, chat_history = chat_history input,
                                    doc_context = combineDocumentsFn docs\<rparr> in
              case model_stream svc p2 of
                Inl e \<Rightarrow>
                  ([ModelInvoke p1, RetrieverStart q, RetrieverEnd docs, ModelStream p2],
                   Thrown e)
              | Inr s \<Rightarrow>
                  ([ModelInvoke p1, RetrieverStart q, RetrieverEnd docs, ModelStream p2],
                   Returned (BytesOutputParser rt s)))))"
  by (simp add: conversationalRetrievalQAChain_def conversationalRetrievalQAChain_inputs_def
      answerChain_def answerChain_inputs_def retrievalChain_def retriever_def
      standaloneQuestionChain_def model_def model_streaming_def pipe_def lambda_def
      bind_run_def ret_def external_def StringOutputParser_def Let_def split: sum.splits)

lemma standaloneQuestionChain_run:
  "standaloneQuestionChain svc input =
     ([ModelInvoke (condenseQuestionPrompt input)],
      case model_invoke svc (condenseQuestionPrompt input) of
        Inl e \<Rightarrow> Thrown e | Inr q \<Rightarrow> Returned q)"
  by (simp add: standaloneQuestionChain_def model_def pipe_def lambda_def
      bind_run_def ret_def external_def StringOutputParser_def split: sum.splits)

lemma POST_retrieval_streaming:
  assumes "POST_retrieval rt svc req = (l, Returned (StreamingTextResponse s hs))"
  obtains body ms q docs where
    "req = Inr body" "messages body = Some ms" "ms \<noteq> []"
    "model_invoke svc (condenseQuestionPrompt
        \<lparr>question = content (last ms),
         chat_history = formatVercelMessages (butlast ms)\<rparr>) = Inr q"
    "retriever_getRelevantDocuments svc q = Inr docs"
    "documentPromise l = Returned docs"
    "hs = [(ascii ''x-message-index'', toString (length (butlast ms) + 1)),
           (ascii ''x-sources'', serializedSources rt docs)]"
  using assms
  by (auto simp: POST_retrieval_def POST_retrieval_body_def try_catch_def catch_clause_def NextResponse_dot_json_def accepted_status_def null_body_status_def
      conversationalRetrievalQAChain_run slice_js_0_minus1 Let_def
      split: sum.splits option.splits if_splits outcome.splits prod.splits)

lemma POST_retrieval_example:
  "POST_retrieval stub_runtime stub_services (Inr one_question_body) =
     ([ModelInvoke (condenseQuestionPrompt
          \<lparr>question = ascii ''What is 2+2?'', chat_history = []\<rparr>),
       RetrieverStart (ascii ''What is 2+2?''),
       RetrieverEnd [calculator_note],
       ModelStream (answerPrompt
          \<lparr>question = ascii ''What is 2+2?'', chat_history = [],
           doc_context = pageContent calculator_note\<rparr>)],
      Returned (StreamingTextResponse \<lparr>chunks = [[52]], ending = None\<rparr>
        [(ascii ''x-message-index'', ascii ''1''), (ascii ''x-sources'', ascii ''json'')]))"
  by (simp add: POST_retrieval_def POST_retrieval_body_def try_catch_def
      conversationalRetrievalQAChain_run slice_js_0_minus1 Let_def one_question_body_def
      user_question_def stub_services_def stub_runtime_def formatVercelMessages_def
      combineDocumentsFn_def BytesOutputParser_def serializedSources_def toString.simps
      digit_def ascii_def)

text \<open>
  C1 (as amended).  When the retrieval handler answers with a stream, the
  \<open>x-message-index\<close> header is the decimal rendering of the history length plus one,
  which is the number of messages in the request: the position the streamed answer will
  take in the conversation.
\<close>

theorem x_message_index_is_request_length:
  assumes "messages body = Some ms"
    and "snd (POST_retrieval rt svc (Inr body)) = Returned (StreamingTextResponse s hs)"
  shows "map_of hs (ascii ''x-message-index'') = Some (toString (length (slice_js ms 0 (- 1)) + 1))
       \<and> length (slice_js ms 0 (- 1)) + 1 = length ms"
proof -
  obtain l where "POST_retrieval rt svc (Inr body) = (l, Returned (StreamingTextResponse s hs))"
    using assms(2) by (cases "POST_retrieval rt svc (Inr body)") simp
  then show ?thesis
    using assms(1) by (elim POST_retrieval_streaming) (auto simp: slice_js_0_minus1)
qed

text \<open>
  C1, witness: a request with one user message, whose history is empty, is answered with
  \<open>x-message-index: 1\<close>.
\<close>

theorem x_message_index_is_request_length_witness:
  "messages one_question_body = Some [user_question]
   \<and> snd (POST_retrieval stub_runtime stub_services (Inr one_question_body)) =
       Returned (StreamingTextResponse \<lparr>chunks = [[52]], ending = None\<rparr>
         [(ascii ''x-message-index'', ascii ''1''), (ascii ''x-sources'', ascii ''json'')])
   \<and> map_of [(ascii ''x-message-index'', ascii ''1''), (ascii ''x-sources'', ascii ''json'')]
         (ascii ''x-message-index'') =
       Some (toString (length (slice_js [user_question] 0 (- 1)) + 1))
   \<and> length (slice_js [user_question] 0 (- 1)) + 1 = length [user_question]"
proof -
  have h1: "messages one_question_body = Some [user_question]"
    by (simp add: one_question_body_def)
  have h2: "snd (POST_retrieval stub_runtime stub_services (Inr one_question_body)) =
       Returned (StreamingTextResponse \<lparr>chunks = [[52]], ending = None\<rparr>
         [(ascii ''x-message-index'', ascii ''1''), (ascii ''x-sources'', ascii ''json'')])"
    by (simp add: POST_retrieval_example)
  show ?thesis
    using x_message_index_is_request_length [OF h1 h2] h1 h2 by blast
qed

text \<open>
  C1, counterexample to the header being the history length: for the request with one
  user message the header is \<open>1\<close>, while the count of prior messages renders as \<open>0\<close>.
\<close>

theorem x_message_index_counterexample:
  "header_of (snd (POST_retrieval stub_runtime stub_services (Inr one_question_body)))
     (ascii ''x-message-index'') = Some (ascii ''1'')
   \<and> messages one_question_body = Some [user_question]
   \<and> toString (length (slice_js [user_question] 0 (- 1))) = ascii ''0''
   \<and> ascii ''1'' \<noteq> ascii ''0''"
proof -
  have "header_of (snd (POST_retrieval stub_runtime stub_services (Inr one_question_body)))
     (ascii ''x-message-index'') = Some (ascii ''1'')"
    by (simp add: POST_retrieval_example header_of_def)
  moreover have "messages one_question_body = Some [user_question]"
    by (simp add: one_question_body_def)
  moreover have "toString (length (slice_js [user_question] 0 (- 1))) = ascii ''0''"
    by (simp add: slice_js_0_minus1 toString.simps digit_def ascii_def)
  moreover have "ascii ''1'' \<noteq> ascii ''0''"
    by (simp add: ascii_def)
  ultimately show ?thesis by blast
qed

text \<open>
  C7.  A request to the retrieval route whose message list is empty is answered with the
  JSON body \<open>{ error: message }\<close> of the \<open>TypeError\<close> and status 500; no service is
  called.
\<close>

theorem empty_messages_error_response:
  "POST_retrieval rt svc (Inr (body\<lparr>messages := Some []\<rparr>)) =
     ([], Returned (NextResponse_json
        (JObject [(ascii ''error'', JString (TypeError_reading rt (ascii ''content'')))]) 500))"
  by (simp add: POST_retrieval_def POST_retrieval_body_def try_catch_def catch_clause_def NextResponse_dot_json_def accepted_status_def null_body_status_def
      TypeError_def)

text \<open>
  C5.  When the standalone-question chain returns the question itself, the retriever is
  started exactly once, with that text as its query.
\<close>

theorem retriever_receives_standalone_question:
  assumes "snd (standaloneQuestionChain svc input) = Returned (question input)"
  shows "retriever_queries (fst (conversationalRetrievalQAChain rt svc input)) = [question input]"
  using assms
  by (auto simp: standaloneQuestionChain_run conversationalRetrievalQAChain_run Let_def
      split: sum.splits)

text \<open>C5, witness: the stub model rewrites the question to itself.\<close>

theorem retriever_receives_standalone_question_witness:
  "snd (standaloneQuestionChain stub_services
          \<lparr>question = ascii ''What is 2+2?'', chat_history = []\<rparr>) =
     Returned (question \<lparr>question = ascii ''What is 2+2?'', chat_history = []\<rparr>)
   \<and> retriever_queries (fst (conversationalRetrievalQAChain stub_runtime stub_services
          \<lparr>question = ascii ''What is 2+2?'', chat_history = []\<rparr>)) =
     [ascii ''What is 2+2?'']"
proof -
  have h: "snd (standaloneQuestionChain stub_services
          \<lparr>question = ascii ''What is 2+2?'', chat_history = []\<rparr>) =
     Returned (question \<lparr>question = ascii ''What is 2+2?'', chat_history = []\<rparr>)"
    by (simp add: standaloneQuestionChain_run stub_services_def)
  show ?thesis
    using retriever_receives_standalone_question [OF h, of stub_runtime] h by simp
qed

text \<open>
  C8.  When the retrieval handler answers with a stream, the \<open>x-sources\<close> header is the
  base64 encoding of the JSON serialization of an array with one object per document the
  retriever returned, in that order; each object has the two fields \<open>pageContent\<close>, the
  first 50 code units of the text followed by three dots, and \<open>metadata\<close>, unchanged.
\<close>

theorem x_sources_header:
  assumes "POST_retrieval rt svc req = (l, Returned (StreamingTextResponse s hs))"
  shows "\<exists>q documents.
           retriever_queries l = [q]
         \<and> retriever_getRelevantDocuments svc q = Inr documents
         \<and> map_of hs (ascii ''x-sources'') =
             Some (Buffer_base64 rt (JSON_stringify rt
               (JArray (map (\<lambda>doc.
                  JObject [(ascii ''pageContent'',
                            JString (take 50 (pageContent doc) @ ascii ''...'')),
                           (ascii ''metadata'', metadata doc)]) documents))))"
  using assms
  apply (auto simp: POST_retrieval_def POST_retrieval_body_def try_catch_def catch_clause_def NextResponse_dot_json_def accepted_status_def null_body_status_def
      conversationalRetrievalQAChain_run slice_js_0_minus1 slice_js_0_50 Let_def
      serializedSources_def
      split: sum.splits option.splits if_splits outcome.splits prod.splits)
  apply (simp add: ascii_def)
  done

text \<open>
  C8, witness: the stub retriever returns one document, and the header is built from it.
\<close>

theorem x_sources_header_witness:
  "POST_retrieval stub_runtime stub_services (Inr one_question_body) =
     ([ModelInvoke (condenseQuestionPrompt
          \<lparr>question = ascii ''What is 2+2?'', chat_history = []\<rparr>),
       RetrieverStart (ascii ''What is 2+2?''),
       RetrieverEnd [calculator_note],
       ModelStream (answerPrompt
          \<lparr>question = ascii ''What is 2+2?'', chat_history = [],
           doc_context = pageContent calculator_note\<rparr>)],
      Returned (StreamingTextResponse \<lparr>chunks = [[52]], ending = None\<rparr>
        [(ascii ''x-message-index'', ascii ''1''), (ascii ''x-sources'', ascii ''json'')]))
   \<and> retriever_getRelevantDocuments stub_services (ascii ''What is 2+2?'') =
       Inr [calculator_note]
   \<and> map_of [(ascii ''x-message-index'', ascii ''1''), (ascii ''x-sources'', ascii ''json'')]
        (ascii ''x-sources'') =
       Some (Buffer_base64 stub_runtime (JSON_stringify stub_runtime
         (JArray [JObject
            [(ascii ''pageContent'',
              JString (ascii ''Two plus two is four, as every pocket calculator w...'')),
             (ascii ''metadata'',
              JObject [(ascii ''source'', JString (ascii ''sums.txt''))])]])))"
proof -
  obtain q documents where
    q: "retriever_queries
          [ModelInvoke (condenseQuestionPrompt
             \<lparr>question = ascii ''What is 2+2?'', chat_history = []\<rparr>),
           RetrieverStart (ascii ''What is 2+2?''),
           RetrieverEnd [calculator_note],
           ModelStream (answerPrompt
             \<lparr>question = ascii ''What is 2+2?'', chat_history = [],
              doc_context = pageContent calculator_note\<rparr>)] = [q]"
    and d: "retriever_getRelevantDocuments stub_services q = Inr documents"
    and h: "map_of [(ascii ''x-message-index'', ascii ''1''), (ascii ''x-sources'', ascii ''json'')]
              (ascii ''x-sources'') =
            Some (Buffer_base64 stub_runtime (JSON_stringify stub_runtime
              (JArray (map (\<lambda>doc.
                 JObject [(ascii ''pageContent'',
                           JString (take 50 (pageContent doc) @ ascii ''...'')),
                          (ascii ''metadata'', metadata doc)]) documents))))"
    using x_sources_header [OF POST_retrieval_example] by blast
  from q have "q = ascii ''What is 2+2?''" by simp
  with d have docs: "documents = [calculator_note]"
    and r: "retriever_getRelevantDocuments stub_services (ascii ''What is 2+2?'') =
              Inr [calculator_note]"
    by (simp_all add: stub_services_def)
  have "take 50 (pageContent calculator_note) @ ascii ''...'' =
          ascii ''Two plus two is four, as every pocket calculator w...''"
    by (simp add: calculator_note_def ascii_def)
  moreover have "metadata calculator_note =
          JObject [(ascii ''source'', JString (ascii ''sums.txt''))]"
    by (simp add: calculator_note_def)
  ultimately show ?thesis
    using h r POST_retrieval_example by (simp add: docs)
qed

text \<open>
  The handler of the retrieval route always comes to a response: whenever the chain has
  returned its stream, retrieval has ended and \<open>documentPromise\<close> is resolved.
\<close>

lemma POST_retrieval_body_settles: "snd (POST_retrieval_body rt svc req) \<noteq> Never"
  by (auto simp: POST_retrieval_body_def conversationalRetrievalQAChain_run Let_def
      split: sum.splits option.splits)

section \<open>Properties of the agent route\<close>

lemma chunks_transformStream_start:
  "chunks (transformStream_start rt es fin) =
     map (TextEncoder_encode rt) (List.map_filter text_delta (takeWhile readable es))"
  by (induction es)
     (auto simp: text_delta_def readable_def enqueue_def List.map_filter_simps
           split: option.splits)

lemma transformStream_start_drop:
  "text_delta e = None \<Longrightarrow> readable e \<Longrightarrow>
   transformStream_start rt (es @ e # es') fin = transformStream_start rt (es @ es') fin"
  by (induction es) (auto simp: text_delta_def readable_def split: option.splits if_splits)

lemma POST_agents_run:
  "POST_agents rt svc (Inr body) =
     (if show_intermediate_steps body \<noteq> Some True then
        ([AgentStreamEvents (agent_messages body)],
         case agent_streamEvents svc (agent_messages body) of
            Inl e \<Rightarrow> catch_clause rt e
          | Inr eventStream \<Rightarrow>
              Returned (StreamingTextResponse (transformStream rt eventStream) []))
      else
        ([AgentInvoke (agent_messages body)],
         case agent_invoke svc (agent_messages body) of
            Inl e \<Rightarrow> catch_clause rt e
          | Inr result \<Rightarrow>
              Returned (NextResponse_json
                (JObject [(ascii ''messages'',
                   JArray (map convertLangChainMessageToVercelMessage result))]) 200)))"
  by (simp add: POST_agents_def POST_agents_body_def try_catch_def bind_run_def ret_def
      external_def Let_def NextResponse_dot_json_def accepted_status_def
      null_body_status_def split: sum.splits)

text \<open>
  C9.  The chunks of the agent route's output stream are exactly the encoded text deltas,
  in order, of the events read by the loop.  A delta that carries only a tool call and no
  text, under any event name, leaves the output stream as it is without it, and so does
  an event of any type other than the chat-model stream.  In streaming mode this stream,
  with no further bytes, is the body of the response.
\<close>

theorem agent_stream_forwards_only_text_deltas:
  "chunks (transformStream rt s) =
     map (TextEncoder_encode rt) (List.map_filter text_delta (takeWhile readable (chunks s)))
   \<and> transformStream rt
        \<lparr>chunks = es @ [\<lparr>event = name, data_chunk = Some (AIMessageChunk [] tcs)\<rparr>] @ es',
         ending = fin\<rparr> =
     transformStream rt \<lparr>chunks = es @ es', ending = fin\<rparr>
   \<and> (name \<noteq> ascii ''on_chat_model_stream'' \<longrightarrow>
        transformStream rt
          \<lparr>chunks = es @ [\<lparr>event = name, data_chunk = d\<rparr>] @ es', ending = fin\<rparr> =
        transformStream rt \<lparr>chunks = es @ es', ending = fin\<rparr>)
   \<and> (show_intermediate_steps body \<noteq> Some True
        \<and> agent_streamEvents svc (agent_messages body) = Inr s \<longrightarrow>
        snd (POST_agents rt svc (Inr body)) =
          Returned (StreamingTextResponse (transformStream rt s) []))"
proof -
  have "chunks (transformStream rt s) =
     map (TextEncoder_encode rt) (List.map_filter text_delta (takeWhile readable (chunks s)))"
    by (simp add: transformStream_def chunks_transformStream_start)
  moreover have "transformStream rt
        \<lparr>chunks = es @ [\<lparr>event = name, data_chunk = Some (AIMessageChunk [] tcs)\<rparr>] @ es',
         ending = fin\<rparr> =
     transformStream rt \<lparr>chunks = es @ es', ending = fin\<rparr>"
    by (simp add: transformStream_def transformStream_start_drop text_delta_def readable_def)
  moreover have "name \<noteq> ascii ''on_chat_model_stream'' \<longrightarrow>
        transformStream rt
          \<lparr>chunks = es @ [\<lparr>event = name, data_chunk = d\<rparr>] @ es', ending = fin\<rparr> =
        transformStream rt \<lparr>chunks = es @ es', ending = fin\<rparr>"
    by (simp add: transformStream_def transformStream_start_drop text_delta_def readable_def)
  moreover have "show_intermediate_steps body \<noteq> Some True
        \<and> agent_streamEvents svc (agent_messages body) = Inr s \<longrightarrow>
        snd (POST_agents rt svc (Inr body)) =
          Returned (StreamingTextResponse (transformStream rt s) [])"
    by (simp add: POST_agents_run)
  ultimately show ?thesis by blast
qed

lemma stub_transformStream_example:
  "transformStream stub_runtime
     \<lparr>chunks = [token_event] @ [tool_start_event] @ [tool_call_delta], ending = None\<rparr> =
   \<lparr>chunks = [[52]], ending = None\<rparr>"
  by (simp add: transformStream_def token_event_def tool_start_event_def tool_call_delta_def
      enqueue_def stub_runtime_def ascii_def)

text \<open>
  C9, witness: of a text token, a tool start and a tool-call delta only the token is
  forwarded; the stub agent's stream is the body of the streaming response.
\<close>

theorem agent_stream_forwards_only_text_deltas_witness:
  "ascii ''on_tool_start'' \<noteq> ascii ''on_chat_model_stream''
   \<and> transformStream stub_runtime
        \<lparr>chunks = [token_event] @ [tool_start_event] @ [tool_call_delta], ending = None\<rparr> =
      transformStream stub_runtime
        \<lparr>chunks = [token_event] @ [tool_call_delta], ending = None\<rparr>
   \<and> transformStream stub_runtime
        \<lparr>chunks = [token_event] @ [tool_start_event] @ [tool_call_delta], ending = None\<rparr> =
      \<lparr>chunks = [[52]], ending = None\<rparr>
   \<and> show_intermediate_steps one_question_body \<noteq> Some True
   \<and> agent_streamEvents stub_services (agent_messages one_question_body) =
        Inr \<lparr>chunks = [token_event], ending = Some rate_limited\<rparr>
   \<and> snd (POST_agents stub_runtime stub_services (Inr one_question_body)) =
        Returned (StreamingTextResponse
          (transformStream stub_runtime
             \<lparr>chunks = [token_event], ending = Some rate_limited\<rparr>) [])"
proof -
  have h1: "ascii ''on_tool_start'' \<noteq> ascii ''on_chat_model_stream''"
    by (simp add: ascii_def)
  have h2: "show_intermediate_steps one_question_body \<noteq> Some True"
    by (simp add: one_question_body_def)
  have h3: "agent_streamEvents stub_services (agent_messages one_question_body) =
        Inr \<lparr>chunks = [token_event], ending = Some rate_limited\<rparr>"
    by (simp add: stub_services_def token_event_def)
  have e: "tool_start_event = \<lparr>event = ascii ''on_tool_start'', data_chunk = None\<rparr>"
    by (simp add: tool_start_event_def)
  show ?thesis
    using agent_stream_forwards_only_text_deltas
      [where rt = stub_runtime and name = "ascii ''on_tool_start''" and d = None
         and es = "[token_event]" and es' = "[tool_call_delta]" and fin = None
         and body = one_question_body and svc = stub_services
         and s = "\<lparr>chunks = [token_event], ending = Some rate_limited\<rparr>"]
      h1 h2 h3 stub_transformStream_example
    by (simp add: e)
qed



section \<open>Failures at the request boundary\<close>

lemma catch_clause_accepted:
  "accepted_status (case status e of Some s \<Rightarrow> s | None \<Rightarrow> 500) \<Longrightarrow>
   catch_clause rt e = Returned (error_response e)"
  by (simp add: catch_clause_def NextResponse_dot_json_def error_response_def)

lemma catch_clause_refused:
  "\<not> accepted_status (case status e of Some s \<Rightarrow> s | None \<Rightarrow> 500) \<Longrightarrow>
   catch_clause rt e = Thrown (Response_error rt (case status e of Some s \<Rightarrow> s | None \<Rightarrow> 500))"
  by (simp add: catch_clause_def NextResponse_dot_json_def)

lemma catch_clause_settles: "catch_clause rt e \<noteq> Never"
  by (simp add: catch_clause_def NextResponse_dot_json_def)

lemma POST_retrieval_body_run:
  assumes "messages body = Some ms" "ms \<noteq> []"
  shows "snd (POST_retrieval_body rt svc (Inr body)) =
     (case model_invoke svc (condenseQuestionPrompt
             \<lparr>question = content (last ms),
              chat_history = formatVercelMessages (slice_js ms 0 (- 1))\<rparr>) of
        Inl e \<Rightarrow> Thrown e
      | Inr q \<Rightarrow>
          (case retriever_getRelevantDocuments svc q of
             Inl e \<Rightarrow> Thrown e
           | Inr docs \<Rightarrow>
               (case model_stream svc (answerPrompt
                       \<lparr>question = q,
                        chat_history = formatVercelMessages (slice_js ms 0 (- 1)),
                        doc_context = combineDocumentsFn docs\<rparr>) of
                  Inl e \<Rightarrow> Thrown e
                | Inr s \<Rightarrow>
                    Returned (StreamingTextResponse (BytesOutputParser rt s)
                      [(ascii ''x-message-index'',
                        toString (length (slice_js ms 0 (- 1)) + 1)),
                       (ascii ''x-sources'', serializedSources rt docs)]))))"
  using assms
  by (simp add: POST_retrieval_body_def conversationalRetrievalQAChain_run Let_def
      split: sum.splits)

lemma POST_chat_body_run:
  assumes "messages body = Some ms" "ms \<noteq> []"
  shows "snd (POST_chat_body rt svc (Inr body)) =
     (case model_stream svc
             (chat_prompt (join (ascii ''\<newline>'') (map formatMessage (slice_js ms 0 (- 1))))
                (content (last ms))) of
        Inl e \<Rightarrow> Thrown e
      | Inr s \<Rightarrow>
          Returned (Response (StringOutputParser_stream s)
            [(ascii ''Content-Type'', ascii ''text/plain; charset=utf-8'')]))"
  using assms
  by (simp add: POST_chat_body_def chat_chain_def pipe_def lambda_def model_streaming_def
      bind_run_def ret_def external_def Let_def split: sum.splits)

lemma POST_structured_output_body_run:
  assumes "messages body = Some ms" "ms \<noteq> []"
  shows "snd (POST_structured_output_body rt svc (Inr body)) =
     (case structured_invoke svc (structured_output_prompt (content (last ms))) of
        Inl e \<Rightarrow> Thrown e
      | Inr result \<Rightarrow> Returned (NextResponse_json result 200))"
  using assms
  by (simp add: POST_structured_output_body_def structured_output_chain_def
      functionCallingModel_def pipe_def lambda_def bind_run_def ret_def external_def Let_def
      NextResponse_dot_json_def accepted_status_def null_body_status_def split: sum.splits)

lemma POST_agents_body_run:
  "snd (POST_agents_body rt svc (Inr body)) =
     (if show_intermediate_steps body \<noteq> Some True then
        (case agent_streamEvents svc (agent_messages body) of
           Inl e \<Rightarrow> Thrown e
         | Inr eventStream \<Rightarrow>
             Returned (StreamingTextResponse (transformStream rt eventStream) []))
      else
        (case agent_invoke svc (agent_messages body) of
           Inl e \<Rightarrow> Thrown e
         | Inr result \<Rightarrow>
             Returned (NextResponse_json
               (JObject [(ascii ''messages'',
                  JArray (map convertLangChainMessageToVercelMessage result))]) 200)))"
  by (simp add: POST_agents_body_def bind_run_def ret_def external_def Let_def
      NextResponse_dot_json_def accepted_status_def null_body_status_def split: sum.splits)

lemma parse_failure_thrown:
  "snd (POST_retrieval_body rt svc (Inl e)) = Thrown e"
  "snd (POST_agents_body rt svc (Inl e)) = Thrown e"
  "snd (POST_chat_body rt svc (Inl e)) = Thrown e"
  "snd (POST_structured_output_body rt svc (Inl e)) = Thrown e"
  by (simp_all add: POST_retrieval_body_def POST_agents_body_def POST_chat_body_def
      POST_structured_output_body_def)

lemma handler_outcome:
  "snd (POST_retrieval rt svc req) = try_catch rt (snd (POST_retrieval_body rt svc req))"
  "snd (POST_agents rt svc req) = try_catch rt (snd (POST_agents_body rt svc req))"
  "snd (POST_chat rt svc req) = try_catch rt (snd (POST_chat_body rt svc req))"
  "snd (POST_structured_output rt svc req) =
     try_catch rt (snd (POST_structured_output_body rt svc req))"
  by (simp_all add: POST_retrieval_def POST_agents_def POST_chat_def
      POST_structured_output_def split: prod.splits)

lemma try_catch_Thrown:
  "accepted_status (case status e of Some s \<Rightarrow> s | None \<Rightarrow> 500) \<Longrightarrow>
   r = Thrown e \<Longrightarrow> try_catch rt r = Returned (error_response e)"
  by (simp add: try_catch_def catch_clause_accepted)

lemma try_catch_settles: "r \<noteq> Never \<Longrightarrow> try_catch rt r \<noteq> Never"
  by (cases r) (simp_all add: try_catch_def catch_clause_settles)

lemma POST_chat_body_settles: "snd (POST_chat_body rt svc req) \<noteq> Never"
  by (auto simp: POST_chat_body_def chat_chain_def pipe_def lambda_def model_streaming_def
      bind_run_def ret_def external_def Let_def split: sum.splits option.splits)

lemma POST_agents_body_settles: "snd (POST_agents_body rt svc req) \<noteq> Never"
  by (auto simp: POST_agents_body_def bind_run_def ret_def external_def
      NextResponse_dot_json_def Let_def split: sum.splits option.splits)

lemma POST_structured_output_body_settles:
  "snd (POST_structured_output_body rt svc req) \<noteq> Never"
  by (auto simp: POST_structured_output_body_def structured_output_chain_def
      functionCallingModel_def pipe_def lambda_def bind_run_def ret_def external_def
      NextResponse_dot_json_def Let_def split: sum.splits option.splits)


text \<open>
  C6 (as amended).  Take a failure whose status is absent or one that a response with a
  body accepts.  If it is thrown while the request body is parsed, or by the awaited call
  to the model, the retriever or the agent that a handler makes before it returns its
  response, or anywhere else inside the \<open>try\<close> block, the handler answers with the JSON
  body \<open>{ error: message }\<close> and the failure's status if present, else 500.  So does the
  \<open>TypeError\<close> of reading the latest message of an empty list.  No handler is left
  waiting.
\<close>

theorem failures_before_the_response_are_caught:
  assumes acc: "accepted_status (case status e of Some s \<Rightarrow> s | None \<Rightarrow> 500)"
    and ms: "messages body = Some ms" "ms \<noteq> []"
  shows
   "snd (POST_retrieval rt svc (Inl e)) = Returned (error_response e)
  \<and> snd (POST_agents rt svc (Inl e)) = Returned (error_response e)
  \<and> snd (POST_chat rt svc (Inl e)) = Returned (error_response e)
  \<and> snd (POST_structured_output rt svc (Inl e)) = Returned (error_response e)
  \<and> (model_invoke svc (condenseQuestionPrompt
          \<lparr>question = content (last ms),
           chat_history = formatVercelMessages (slice_js ms 0 (- 1))\<rparr>) = Inl e \<longrightarrow>
       snd (POST_retrieval rt svc (Inr body)) = Returned (error_response e))
  \<and> (model_invoke svc (condenseQuestionPrompt
          \<lparr>question = content (last ms),
           chat_history = formatVercelMessages (slice_js ms 0 (- 1))\<rparr>) = Inr q
       \<and> retriever_getRelevantDocuments svc q = Inl e \<longrightarrow>
       snd (POST_retrieval rt svc (Inr body)) = Returned (error_response e))
  \<and> (model_invoke svc (condenseQuestionPrompt
          \<lparr>question = content (last ms),
           chat_history = formatVercelMessages (slice_js ms 0 (- 1))\<rparr>) = Inr q
       \<and> retriever_getRelevantDocuments svc q = Inr docs
       \<and> model_stream svc (answerPrompt
          \<lparr>question = q, chat_history = formatVercelMessages (slice_js ms 0 (- 1)),
           doc_context = combineDocumentsFn docs\<rparr>) = Inl e \<longrightarrow>
       snd (POST_retrieval rt svc (Inr body)) = Returned (error_response e))
  \<and> (show_intermediate_steps body \<noteq> Some True
       \<and> agent_streamEvents svc (agent_messages body) = Inl e \<longrightarrow>
       snd (POST_agents rt svc (Inr body)) = Returned (error_response e))
  \<and> (show_intermediate_steps body = Some True
       \<and> agent_invoke svc (agent_messages body) = Inl e \<longrightarrow>
       snd (POST_agents rt svc (Inr body)) = Returned (error_response e))
  \<and> (model_stream svc
          (chat_prompt (join (ascii ''\<newline>'') (map formatMessage (slice_js ms 0 (- 1))))
             (content (last ms))) = Inl e \<longrightarrow>
       snd (POST_chat rt svc (Inr body)) = Returned (error_response e))
  \<and> (structured_invoke svc (structured_output_prompt (content (last ms))) = Inl e \<longrightarrow>
       snd (POST_structured_output rt svc (Inr body)) = Returned (error_response e))
  \<and> snd (POST_chat rt svc (Inr (body\<lparr>messages := Some []\<rparr>))) =
       Returned (error_response (TypeError rt (ascii ''content'')))
  \<and> snd (POST_structured_output rt svc (Inr (body\<lparr>messages := Some []\<rparr>))) =
       Returned (error_response (TypeError rt (ascii ''content'')))
  \<and> (snd (POST_retrieval_body rt svc req) = Thrown e \<longrightarrow>
       snd (POST_retrieval rt svc req) = Returned (error_response e))
  \<and> (snd (POST_agents_body rt svc req) = Thrown e \<longrightarrow>
       snd (POST_agents rt svc req) = Returned (error_response e))
  \<and> (snd (POST_chat_body rt svc req) = Thrown e \<longrightarrow>
       snd (POST_chat rt svc req) = Returned (error_response e))
  \<and> (snd (POST_structured_output_body rt svc req) = Thrown e \<longrightarrow>
       snd (POST_structured_output rt svc req) = Returned (error_response e))
  \<and> snd (POST_retrieval rt svc req) \<noteq> Never
  \<and> snd (POST_agents rt svc req) \<noteq> Never
  \<and> snd (POST_chat rt svc req) \<noteq> Never
  \<and> snd (POST_structured_output rt svc req) \<noteq> Never
  \<and> error_response e =
       NextResponse_json (JObject [(ascii ''error'', JString (message e))])
         (case status e of Some s \<Rightarrow> s | None \<Rightarrow> 500)"
proof -
  note caught = try_catch_Thrown [OF acc]
  have p: "snd (POST_retrieval rt svc (Inl e)) = Returned (error_response e)"
    "snd (POST_agents rt svc (Inl e)) = Returned (error_response e)"
    "snd (POST_chat rt svc (Inl e)) = Returned (error_response e)"
    "snd (POST_structured_output rt svc (Inl e)) = Returned (error_response e)"
    by (simp_all add: handler_outcome parse_failure_thrown caught)
  have r: "model_invoke svc (condenseQuestionPrompt
          \<lparr>question = content (last ms),
           chat_history = formatVercelMessages (slice_js ms 0 (- 1))\<rparr>) = Inl e \<longrightarrow>
       snd (POST_retrieval rt svc (Inr body)) = Returned (error_response e)"
    "model_invoke svc (condenseQuestionPrompt
          \<lparr>question = content (last ms),
           chat_history = formatVercelMessages (slice_js ms 0 (- 1))\<rparr>) = Inr q
       \<and> retriever_getRelevantDocuments svc q = Inl e \<longrightarrow>
       snd (POST_retrieval rt svc (Inr body)) = Returned (error_response e)"
    "model_invoke svc (condenseQuestionPrompt
          \<lparr>question = content (last ms),
           chat_history = formatVercelMessages (slice_js ms 0 (- 1))\<rparr>) = Inr q
       \<and> retriever_getRelevantDocuments svc q = Inr docs
       \<and> model_stream svc (answerPrompt
          \<lparr>question = q, chat_history = formatVercelMessages (slice_js ms 0 (- 1)),
           doc_context = combineDocumentsFn docs\<rparr>) = Inl e \<longrightarrow>
       snd (POST_retrieval rt svc (Inr body)) = Returned (error_response e)"
    by (simp_all add: handler_outcome(1) POST_retrieval_body_run [OF ms] caught)
  have a: "show_intermediate_steps body \<noteq> Some True
       \<and> agent_streamEvents svc (agent_messages body) = Inl e \<longrightarrow>
       snd (POST_agents rt svc (Inr body)) = Returned (error_response e)"
    "show_intermediate_steps body = Some True
       \<and> agent_invoke svc (agent_messages body) = Inl e \<longrightarrow>
       snd (POST_agents rt svc (Inr body)) = Returned (error_response e)"
    by (simp_all add: handler_outcome(2) POST_agents_body_run caught)
  have c: "model_stream svc
          (chat_prompt (join (ascii ''\<newline>'') (map formatMessage (slice_js ms 0 (- 1))))
             (content (last ms))) = Inl e \<longrightarrow>
       snd (POST_chat rt svc (Inr body)) = Returned (error_response e)"
    by (simp add: handler_outcome(3) POST_chat_body_run [OF ms] caught)
  have s: "structured_invoke svc (structured_output_prompt (content (last ms))) = Inl e \<longrightarrow>
       snd (POST_structured_output rt svc (Inr body)) = Returned (error_response e)"
    by (simp add: handler_outcome(4) POST_structured_output_body_run [OF ms] caught)
  have t: "accepted_status (case status (TypeError rt (ascii ''content'')) of
              Some s \<Rightarrow> s | None \<Rightarrow> 500)"
    by (simp add: TypeError_def accepted_status_def null_body_status_def)
  have em: "snd (POST_chat rt svc (Inr (body\<lparr>messages := Some []\<rparr>))) =
       Returned (error_response (TypeError rt (ascii ''content'')))"
    "snd (POST_structured_output rt svc (Inr (body\<lparr>messages := Some []\<rparr>))) =
       Returned (error_response (TypeError rt (ascii ''content'')))"
    by (simp_all add: handler_outcome POST_chat_body_def POST_structured_output_body_def
        try_catch_Thrown [OF t])
  have g: "snd (POST_retrieval_body rt svc req) = Thrown e \<longrightarrow>
       snd (POST_retrieval rt svc req) = Returned (error_response e)"
    "snd (POST_agents_body rt svc req) = Thrown e \<longrightarrow>
       snd (POST_agents rt svc req) = Returned (error_response e)"
    "snd (POST_chat_body rt svc req) = Thrown e \<longrightarrow>
       snd (POST_chat rt svc req) = Returned (error_response e)"
    "snd (POST_structured_output_body rt svc req) = Thrown e \<longrightarrow>
       snd (POST_structured_output rt svc req) = Returned (error_response e)"
    by (simp_all add: handler_outcome caught)
  have n: "snd (POST_retrieval rt svc req) \<noteq> Never"
    "snd (POST_agents rt svc req) \<noteq> Never"
    "snd (POST_chat rt svc req) \<noteq> Never"
    "snd (POST_structured_output rt svc req) \<noteq> Never"
    by (simp_all add: handler_outcome try_catch_settles POST_retrieval_body_settles
        POST_agents_body_settles POST_chat_body_settles POST_structured_output_body_settles)
  have sh: "error_response e =
       NextResponse_json (JObject [(ascii ''error'', JString (message e))])
         (case status e of Some s \<Rightarrow> s | None \<Rightarrow> 500)"
    by (simp add: error_response_def)
  show ?thesis
    using p r a c s em g n sh by blast
qed


text \<open>
  C6, witness: with status 429 on a failing parse and on each failing service call, every
  handler answers \<open>{ error: "rate limit" }\<close> with status 429.
\<close>

theorem failures_before_the_response_are_caught_witness:
  "accepted_status (case status rate_limited of Some s \<Rightarrow> s | None \<Rightarrow> 500)
   \<and> messages one_question_body = Some [user_question]
   \<and> [user_question] \<noteq> []
   \<and> snd (POST_retrieval_body stub_runtime services_down (Inl rate_limited)) = Thrown rate_limited
   \<and> snd (POST_agents_body stub_runtime services_down (Inl rate_limited)) = Thrown rate_limited
   \<and> snd (POST_chat_body stub_runtime services_down (Inl rate_limited)) = Thrown rate_limited
   \<and> snd (POST_structured_output_body stub_runtime services_down (Inl rate_limited)) =
       Thrown rate_limited
   \<and> snd (POST_retrieval stub_runtime services_down (Inl rate_limited)) =
       Returned (NextResponse_json (JObject [(ascii ''error'', JString (ascii ''rate limit''))]) 429)
   \<and> snd (POST_agents stub_runtime services_down (Inl rate_limited)) =
       Returned (NextResponse_json (JObject [(ascii ''error'', JString (ascii ''rate limit''))]) 429)
   \<and> snd (POST_chat stub_runtime services_down (Inl rate_limited)) =
       Returned (NextResponse_json (JObject [(ascii ''error'', JString (ascii ''rate limit''))]) 429)
   \<and> snd (POST_structured_output stub_runtime services_down (Inl rate_limited)) =
       Returned (NextResponse_json (JObject [(ascii ''error'', JString (ascii ''rate limit''))]) 429)
   \<and> model_invoke services_down
        (condenseQuestionPrompt
          \<lparr>question = content (last [user_question]),
           chat_history = formatVercelMessages (slice_js [user_question] 0 (- 1))\<rparr>) = Inl rate_limited
   \<and> snd (POST_retrieval stub_runtime services_down (Inr one_question_body)) =
       Returned (NextResponse_json (JObject [(ascii ''error'', JString (ascii ''rate limit''))]) 429)
   \<and> model_invoke retriever_down
        (condenseQuestionPrompt
          \<lparr>question = content (last [user_question]),
           chat_history = formatVercelMessages (slice_js [user_question] 0 (- 1))\<rparr>) = Inr (ascii ''What is 2+2?'')
   \<and> retriever_getRelevantDocuments retriever_down (ascii ''What is 2+2?'') = Inl rate_limited
   \<and> snd (POST_retrieval stub_runtime retriever_down (Inr one_question_body)) =
       Returned (NextResponse_json (JObject [(ascii ''error'', JString (ascii ''rate limit''))]) 429)
   \<and> model_invoke model_stream_down
        (condenseQuestionPrompt
          \<lparr>question = content (last [user_question]),
           chat_history = formatVercelMessages (slice_js [user_question] 0 (- 1))\<rparr>) = Inr (ascii ''What is 2+2?'')
   \<and> retriever_getRelevantDocuments model_stream_down (ascii ''What is 2+2?'') =
       Inr [calculator_note]
   \<and> model_stream model_stream_down
        (answerPrompt
          \<lparr>question = ascii ''What is 2+2?'',
           chat_history = formatVercelMessages (slice_js [user_question] 0 (- 1)),
           doc_context = combineDocumentsFn [calculator_note]\<rparr>) = Inl rate_limited
   \<and> snd (POST_retrieval stub_runtime model_stream_down (Inr one_question_body)) =
       Returned (NextResponse_json (JObject [(ascii ''error'', JString (ascii ''rate limit''))]) 429)
   \<and> show_intermediate_steps one_question_body \<noteq> Some True
   \<and> agent_streamEvents services_down (agent_messages one_question_body) = Inl rate_limited
   \<and> snd (POST_agents stub_runtime services_down (Inr one_question_body)) =
       Returned (NextResponse_json (JObject [(ascii ''error'', JString (ascii ''rate limit''))]) 429)
   \<and> messages with_system_step = Some [user_question, \<lparr>role = ascii ''system'', content = ascii ''tool: calculator''\<rparr>]
   \<and> show_intermediate_steps with_system_step = Some True
   \<and> agent_invoke services_down (agent_messages with_system_step) = Inl rate_limited
   \<and> snd (POST_agents stub_runtime services_down (Inr with_system_step)) =
       Returned (NextResponse_json (JObject [(ascii ''error'', JString (ascii ''rate limit''))]) 429)
   \<and> model_stream services_down
        (chat_prompt
          (join (ascii ''\<newline>'') (map formatMessage (slice_js [user_question] 0 (- 1))))
          (content (last [user_question]))) = Inl rate_limited
   \<and> snd (POST_chat stub_runtime services_down (Inr one_question_body)) =
       Returned (NextResponse_json (JObject [(ascii ''error'', JString (ascii ''rate limit''))]) 429)
   \<and> structured_invoke services_down
        (structured_output_prompt (content (last [user_question]))) = Inl rate_limited
   \<and> snd (POST_structured_output stub_runtime services_down (Inr one_question_body)) =
       Returned (NextResponse_json (JObject [(ascii ''error'', JString (ascii ''rate limit''))]) 429)"
proof -
  have w0: "accepted_status (case status rate_limited of Some s \<Rightarrow> s | None \<Rightarrow> 500)"
    by (simp add: rate_limited_def accepted_status_def null_body_status_def)
  have w1: "messages one_question_body = Some [user_question]"
    by (simp add: one_question_body_def)
  have w2: "[user_question] \<noteq> []"
    by (simp)
  have g1: "snd (POST_retrieval_body stub_runtime services_down (Inl rate_limited)) = Thrown rate_limited"
    by (simp add: parse_failure_thrown)
  have g2: "snd (POST_agents_body stub_runtime services_down (Inl rate_limited)) = Thrown rate_limited"
    by (simp add: parse_failure_thrown)
  have g3: "snd (POST_chat_body stub_runtime services_down (Inl rate_limited)) = Thrown rate_limited"
    by (simp add: parse_failure_thrown)
  have g4: "snd (POST_structured_output_body stub_runtime services_down (Inl rate_limited)) =
         Thrown rate_limited"
    by (simp add: parse_failure_thrown)
  have h5: "model_invoke services_down
          (condenseQuestionPrompt
            \<lparr>question = content (last [user_question]),
             chat_history = formatVercelMessages (slice_js [user_question] 0 (- 1))\<rparr>) = Inl rate_limited"
    by (simp add: services_down_def)
  have h6a: "model_invoke retriever_down
          (condenseQuestionPrompt
            \<lparr>question = content (last [user_question]),
             chat_history = formatVercelMessages (slice_js [user_question] 0 (- 1))\<rparr>) = Inr (ascii ''What is 2+2?'')"
    by (simp add: retriever_down_def stub_services_def)
  have h6b: "retriever_getRelevantDocuments retriever_down (ascii ''What is 2+2?'') = Inl rate_limited"
    by (simp add: retriever_down_def)
  have h7a: "model_invoke model_stream_down
          (condenseQuestionPrompt
            \<lparr>question = content (last [user_question]),
             chat_history = formatVercelMessages (slice_js [user_question] 0 (- 1))\<rparr>) = Inr (ascii ''What is 2+2?'')"
    by (simp add: model_stream_down_def stub_services_def)
  have h7b: "retriever_getRelevantDocuments model_stream_down (ascii ''What is 2+2?'') =
         Inr [calculator_note]"
    by (simp add: model_stream_down_def stub_services_def)
  have h7c: "model_stream model_stream_down
          (answerPrompt
            \<lparr>question = ascii ''What is 2+2?'',
             chat_history = formatVercelMessages (slice_js [user_question] 0 (- 1)),
             doc_context = combineDocumentsFn [calculator_note]\<rparr>) = Inl rate_limited"
    by (simp add: model_stream_down_def)
  have h8a: "show_intermediate_steps one_question_body \<noteq> Some True"
    by (simp add: one_question_body_def)
  have h8b: "agent_streamEvents services_down (agent_messages one_question_body) = Inl rate_limited"
    by (simp add: services_down_def)
  have h9a: "messages with_system_step = Some [user_question, \<lparr>role = ascii ''system'', content = ascii ''tool: calculator''\<rparr>]"
    by (simp add: with_system_step_def)
  have h9b: "show_intermediate_steps with_system_step = Some True"
    by (simp add: with_system_step_def)
  have h9c: "agent_invoke services_down (agent_messages with_system_step) = Inl rate_limited"
    by (simp add: services_down_def)
  have h10: "model_stream services_down
          (chat_prompt
            (join (ascii ''\<newline>'') (map formatMessage (slice_js [user_question] 0 (- 1))))
            (content (last [user_question]))) = Inl rate_limited"
    by (simp add: services_down_def)
  have h11: "structured_invoke services_down
          (structured_output_prompt (content (last [user_question]))) = Inl rate_limited"
    by (simp add: services_down_def)
  have ne: "[user_question, \<lparr>role = ascii ''system'', content = ascii ''tool: calculator''\<rparr>]
              \<noteq> []" by simp
  have er: "error_response rate_limited =
      NextResponse_json (JObject [(ascii ''error'', JString (ascii ''rate limit''))]) 429"
    by (simp add: error_response_def rate_limited_def)
  note t1 = failures_before_the_response_are_caught
    [OF w0 w1 w2, where rt = stub_runtime and svc = services_down
       and req = "Inl rate_limited"]
  note t2 = failures_before_the_response_are_caught
    [OF w0 w1 w2, where rt = stub_runtime and svc = retriever_down
       and q = "ascii ''What is 2+2?''"]
  note t3 = failures_before_the_response_are_caught
    [OF w0 w1 w2, where rt = stub_runtime and svc = model_stream_down
       and q = "ascii ''What is 2+2?''" and docs = "[calculator_note]"]
  note t4 = failures_before_the_response_are_caught
    [OF w0 h9a ne, where rt = stub_runtime and svc = services_down]
  have c1: "snd (POST_retrieval stub_runtime services_down (Inl rate_limited)) =
       Returned (error_response rate_limited)"
    and c2: "snd (POST_agents stub_runtime services_down (Inl rate_limited)) =
       Returned (error_response rate_limited)"
    and c3: "snd (POST_chat stub_runtime services_down (Inl rate_limited)) =
       Returned (error_response rate_limited)"
    and c4: "snd (POST_structured_output stub_runtime services_down (Inl rate_limited)) =
       Returned (error_response rate_limited)"
    using t1 g1 g2 g3 g4 by blast+
  have c5: "snd (POST_retrieval stub_runtime services_down (Inr one_question_body)) =
       Returned (error_response rate_limited)"
    and c8: "snd (POST_agents stub_runtime services_down (Inr one_question_body)) =
       Returned (error_response rate_limited)"
    and c10: "snd (POST_chat stub_runtime services_down (Inr one_question_body)) =
       Returned (error_response rate_limited)"
    and c11: "snd (POST_structured_output stub_runtime services_down (Inr one_question_body)) =
       Returned (error_response rate_limited)"
    using t1 h5 h8a h8b h10 h11 by blast+
  have c6: "snd (POST_retrieval stub_runtime retriever_down (Inr one_question_body)) =
       Returned (error_response rate_limited)"
    using t2 h6a h6b by blast
  have c7: "snd (POST_retrieval stub_runtime model_stream_down (Inr one_question_body)) =
       Returned (error_response rate_limited)"
    using t3 h7a h7b h7c by blast
  have c9: "snd (POST_agents stub_runtime services_down (Inr with_system_step)) =
       Returned (error_response rate_limited)"
    using t4 h9b h9c by blast
  show ?thesis
    using w0 w1 w2 g1 g2 g3 g4 h5 h6a h6b h7a h7b h7c h8a h8b h9a h9b h9c h10 h11
      c1 c2 c3 c4 c5 c6 c7 c8 c9 c10 c11
    unfolding er by blast
qed

text \<open>
  C6, counterexample to every failure being answered with a JSON error.  In streaming
  mode of the agent route a failure of the event stream after its first token leaves the
  response a stream that ends with that failure.  And a failure whose status is 0 makes
  the \<open>catch\<close> clause itself throw, so that a failure leaves the handler.
\<close>

theorem failure_not_answered_counterexample:
  "snd (POST_agents stub_runtime stub_services (Inr one_question_body)) =
     Returned (StreamingTextResponse \<lparr>chunks = [[52]], ending = Some rate_limited\<rparr> [])
   \<and> StreamingTextResponse \<lparr>chunks = [[52]], ending = Some rate_limited\<rparr> [] \<noteq>
       error_response rate_limited
   \<and> snd (POST_retrieval_body stub_runtime stub_services (Inl network_error)) =
       Thrown network_error
   \<and> snd (POST_retrieval stub_runtime stub_services (Inl network_error)) =
       Thrown (Response_error stub_runtime 0)"
proof -
  have "snd (POST_agents stub_runtime stub_services (Inr one_question_body)) =
     Returned (StreamingTextResponse \<lparr>chunks = [[52]], ending = Some rate_limited\<rparr> [])"
    by (simp add: POST_agents_run one_question_body_def stub_services_def stub_runtime_def
        transformStream_def enqueue_def ascii_def)
  moreover have "StreamingTextResponse \<lparr>chunks = [[52]], ending = Some rate_limited\<rparr> [] \<noteq>
       error_response rate_limited"
    by (simp add: error_response_def)
  moreover have "snd (POST_retrieval_body stub_runtime stub_services (Inl network_error)) =
       Thrown network_error"
    by (simp add: parse_failure_thrown)
  moreover have "snd (POST_retrieval stub_runtime stub_services (Inl network_error)) =
       Thrown (Response_error stub_runtime 0)"
    by (simp add: handler_outcome parse_failure_thrown try_catch_def catch_clause_def
        NextResponse_dot_json_def accepted_status_def network_error_def)
  ultimately show ?thesis by blast
qed

section \<open>Properties of match_documents\<close>





lemma cosine_distance_examples:
  "cosine_distance [1, 0] [1, 0] = Finite 0"
  "cosine_distance [0, 1] [1, 0] = Finite 1"
  "cosine_distance [- 1, 0] [1, 0] = Finite 2"
  "cosine_distance [0, 0] [1, 0] = NaN"
  "cosine_distance [0, 0] [0, 0] = NaN"
  by (simp_all add: cosine_distance_def l2_norm_def inner_product_def)




subsection \<open>The range of the similarity\<close>

lemma inner_product_Cons [simp]:
  "inner_product (x # a) (y # b) = x * y + inner_product a b"
  by (simp add: inner_product_def)

lemma inner_product_Nil [simp]: "inner_product [] b = 0" "inner_product a [] = 0"
  by (simp_all add: inner_product_def)

lemma inner_product_self_nonneg: "0 \<le> inner_product a a"
  by (induction a) auto











subsection \<open>Round trip of a single row\<close>

lemma cosine_distance_self:
  assumes "l2_norm e \<noteq> 0"
  shows "cosine_distance e e = Finite 0"
proof -
  have "l2_norm e * l2_norm e = inner_product e e"
    by (simp add: l2_norm_def inner_product_self_nonneg)
  moreover have "inner_product e e \<noteq> 0"
    using assms by (auto simp: l2_norm_def)
  ultimately show ?thesis using assms by (simp add: cosine_distance_def)
qed

text \<open>
  C4 (as amended).  When the table holds a single row whose embedding has non-zero
  length, and the query is that embedding with a limit of at least 1 and the other
  arguments left at their defaults, then exactly that row is returned, with similarity 1.
\<close>

theorem sole_row_round_trip:
  assumes "l2_norm (embedding d) \<noteq> 0" and "1 \<le> K"
  shows "match_documents cosine_distance contains (embedding d) (Some K) None [d] =
           Inr [\<lparr>match_id = doc_id d, match_content = doc_content d,
                  match_metadata = doc_metadata d, similarity = Finite 1\<rparr>]
       \<and> match_documents_grok cosine_distance (embedding d) None (Some K) [d] =
           Inr [\<lparr>match_id = doc_id d, match_content = doc_content d,
                  match_metadata = doc_metadata d, similarity = Finite 1\<rparr>]"
proof -
  have "take (nat K) [d] = [d]" using assms(2) by (cases "nat K") auto
  then show ?thesis
    using assms
    by (simp add: match_documents_def match_documents_grok_def limit_def
        cosine_distance_self [OF assms(1)] less_float8_def)
qed

text \<open>C4, witness: a row with a unit embedding is found with similarity 1.\<close>

theorem sole_row_round_trip_witness:
  "l2_norm (embedding row_east) \<noteq> 0 \<and> (1::int) \<le> 1
   \<and> match_documents cosine_distance contains_fields (embedding row_east) (Some 1) None
        [row_east] =
     Inr [\<lparr>match_id = doc_id row_east, match_content = doc_content row_east,
            match_metadata = doc_metadata row_east, similarity = Finite 1\<rparr>]
   \<and> match_documents_grok cosine_distance (embedding row_east) None (Some 1) [row_east] =
     Inr [\<lparr>match_id = doc_id row_east, match_content = doc_content row_east,
            match_metadata = doc_metadata row_east, similarity = Finite 1\<rparr>]"
proof -
  have h1: "l2_norm (embedding row_east) \<noteq> 0"
    by (simp add: row_east_def l2_norm_def inner_product_def)
  have h2: "(1::int) \<le> 1" by simp
  show ?thesis
    using sole_row_round_trip [OF h1 h2, where contains = contains_fields] h1 by simp
qed

text \<open>
  C4, counterexample to the similarity being about 1 for every chunk: a sole row whose
  embedding is the zero vector, queried with that embedding, is returned with similarity
  NaN by both versions.
\<close>

theorem zero_embedding_round_trip_counterexample:
  "match_documents cosine_distance contains_fields (embedding row_origin) (Some 1) None
     [row_origin] =
     Inr [\<lparr>match_id = 4, match_content = ''Nothing.'',
            match_metadata = JObject [(ascii ''source'', JString (ascii ''empty.txt''))],
            similarity = NaN\<rparr>]
   \<and> match_documents_grok cosine_distance (embedding row_origin) None (Some 1)
       [row_origin] =
     Inr [\<lparr>match_id = 4, match_content = ''Nothing.'',
            match_metadata = JObject [(ascii ''source'', JString (ascii ''empty.txt''))],
            similarity = NaN\<rparr>]
   \<and> NaN \<noteq> Finite 1"
  by (simp add: match_documents_def match_documents_grok_def limit_def row_origin_def
      cosine_distance_examples less_float8_def)

end
